theory Spec2Isabelle
  imports Complex_Main "HOL-Library.Sublist"
begin

section \<open>JavaScript values\<close>

text \<open>
  The service handles values that come out of \<^verbatim>\<open>JSON.parse\<close> and out of property
  reads on them. A number is an IEEE double; what the code does with a number is test
  it for truthiness, pass it on and print it into a URL, so a number is a rational or
  one of the special doubles. An object is the list of its own properties. A string is
  a list of 8-bit characters: the code compares strings with ASCII literals only, and a
  string with a character beyond that range behaves as any other string that differs
  from them.
\<close>

datatype number = Finite rat | NegZero | PosInfinity | NegInfinity | NaN

datatype jsval =
    JUndefined
  | JNull
  | JBool bool
  | JNum number
  | JStr string
  | JArr "jsval list"
  | JObj "(string \<times> jsval) list"

datatype error =
    TypeError
  | SyntaxError
  | RequestError string
  | Error string

text \<open>
  The property read \<^verbatim>\<open>o.k\<close>, for the keys the service reads (\<^verbatim>\<open>lat\<close>, \<^verbatim>\<open>lon\<close>,
  \<^verbatim>\<open>currently\<close>, \<^verbatim>\<open>icon\<close>, \<^verbatim>\<open>secrets\<close>, \<^verbatim>\<open>DARKSKY_API_KEY\<close>), none of which
  is inherited from a prototype: reading a property of \<^verbatim>\<open>undefined\<close> or \<^verbatim>\<open>null\<close>
  throws a TypeError, a property an object does not have reads as \<^verbatim>\<open>undefined\<close>, and so
  does any of these keys on a boolean, a number, a string or an array.
\<close>

fun getprop :: "jsval \<Rightarrow> string \<Rightarrow> error + jsval" where
  "getprop JUndefined k = Inl TypeError"
| "getprop JNull k = Inl TypeError"
| "getprop (JObj kvs) k = Inr (case map_of kvs k of None \<Rightarrow> JUndefined | Some v \<Rightarrow> v)"
| "getprop v k = Inr JUndefined"

text \<open>The conversion to boolean that \<^verbatim>\<open>!v\<close> applies.\<close>

fun truthy :: "jsval \<Rightarrow> bool" where
  "truthy JUndefined = False"
| "truthy JNull = False"
| "truthy (JBool b) = b"
| "truthy (JNum n) = (n \<noteq> Finite 0 \<and> n \<noteq> NegZero \<and> n \<noteq> NaN)"
| "truthy (JStr s) = (s \<noteq> [])"
| "truthy (JArr xs) = True"
| "truthy (JObj kvs) = True"

text \<open>
  The conversion to string that \<^verbatim>\<open>'...' + v\<close> applies. How a double prints is left to
  the parameter \<open>num\<close>. An array prints its elements joined by commas, \<^verbatim>\<open>undefined\<close>
  and \<^verbatim>\<open>null\<close> among them as nothing. An object prints as \<^verbatim>\<open>[object Object]\<close>
  through the method it inherits; an object with a property of its own named
  \<^verbatim>\<open>toString\<close> (which is never a function in a parsed value) has no way to be
  converted, and the conversion throws a TypeError. \<open>collect\<close> converts the elements in
  order and stops at the first that throws.
\<close>

fun join :: "string \<Rightarrow> string list \<Rightarrow> string" where
  "join sep [] = []"
| "join sep [s] = s"
| "join sep (s # t # ts) = s @ sep @ join sep (t # ts)"

fun collect :: "(error + 'a) list \<Rightarrow> error + 'a list" where
  "collect [] = Inr []"
| "collect (r # rs) =
     (case r of
        Inl e \<Rightarrow> Inl e
      | Inr x \<Rightarrow> (case collect rs of Inl e \<Rightarrow> Inl e | Inr xs \<Rightarrow> Inr (x # xs)))"

fun ToString :: "(number \<Rightarrow> string) \<Rightarrow> jsval \<Rightarrow> error + string" where
  "ToString num JUndefined = Inr ''undefined''"
| "ToString num JNull = Inr ''null''"
| "ToString num (JBool b) = Inr (if b then ''true'' else ''false'')"
| "ToString num (JNum n) = Inr (num n)"
| "ToString num (JStr s) = Inr s"
| "ToString num (JArr xs) =
     (case collect
             (map (\<lambda>x. if x = JUndefined \<or> x = JNull then Inr [] else ToString num x) xs) of
        Inl e \<Rightarrow> Inl e
      | Inr ss \<Rightarrow> Inr (join '','' ss))"
| "ToString num (JObj kvs) =
     (if map_of kvs ''toString'' = None then Inr ''[object Object]'' else Inl TypeError)"

section \<open>The outside world\<close>

text \<open>
  What the service does not compute itself is a parameter: the addresses that
  \<^verbatim>\<open>proxyaddr.all(req, 'uniquelocal')\<close> finds for a request, what an HTTP GET of a URL
  comes back with, \<^verbatim>\<open>JSON.parse\<close> (\<open>None\<close> where it throws a SyntaxError) and the
  printing of a double. What the service does to the world is a list of effects, in order.
  A request is what the service and the address walk read of it: the remote address of
  the socket, the forwarding header and the webtask context that holds the secrets. An
  HTTP GET either fails on the way or brings back a response, with its status code and
  its body.
\<close>

record request =
  remoteAddress :: jsval
  forwardedFor :: jsval
  webtaskContext :: jsval

datatype http_outcome = Failed string | Response nat string

datatype effect = ConsoleWarn string | HttpGet string

record env =
  proxyaddr_all :: "request \<Rightarrow> jsval list"
  http_get :: "string \<Rightarrow> http_outcome"
  JSON_parse :: "string \<Rightarrow> jsval option"
  Number_toString :: "number \<Rightarrow> string"

section \<open>Constants\<close>

definition IP_LOOKUP_BASE_URL :: string where
  \<open>IP_LOOKUP_BASE_URL = ''http://ip-api.com/json/''\<close>

definition WEATHER_LOOKUP_BASE_URL :: string where
  \<open>WEATHER_LOOKUP_BASE_URL = ''https://api.darksky.net/forecast/''\<close>

definition TAB :: string where
  "TAB = [CHR 0x09]"

definition SVG_BASE :: string where
  \<open>SVG_BASE =
     ''<?xml version="1.0" encoding="UTF-8" ?>\<newline>'' @
     ''<svg xmlns="http://www.w3.org/2000/svg" version="1.1" viewbox="0 0 200 230">''\<close>

definition SVG_SUN :: string where
  \<open>SVG_SUN =
     ''\<newline>'' @
     ''<g fill="#FFE000" stroke="#FEE000">\<newline>'' @
     TAB @ ''<circle r="30" cx="100" cy="100" />\<newline>'' @
     TAB @ ''<g transform="translate(100 100)">\<newline>'' @
     TAB @ TAB @ ''<line x1="0" x2="0" y1="35" y2="70" stroke-width="4" transform="rotate(0)"  />\<newline>'' @
     TAB @ TAB @ ''<line x1="0" x2="0" y1="35" y2="60" stroke-width="4" transform="rotate(45)"  />\<newline>'' @
     TAB @ TAB @ ''<line x1="0" x2="0" y1="35" y2="70" stroke-width="4" transform="rotate(90)"  />\<newline>'' @
     TAB @ TAB @ ''<line x1="0" x2="0" y1="35" y2="60" stroke-width="4" transform="rotate(135)" />\<newline>'' @
     TAB @ TAB @ ''<line x1="0" x2="0" y1="35" y2="70" stroke-width="4" transform="rotate(180)" />\<newline>'' @
     TAB @ TAB @ ''<line x1="0" x2="0" y1="35" y2="60" stroke-width="4" transform="rotate(225)" />\<newline>'' @
     TAB @ TAB @ ''<line x1="0" x2="0" y1="35" y2="70" stroke-width="4" transform="rotate(270)" />\<newline>'' @
     TAB @ TAB @ ''<line x1="0" x2="0" y1="35" y2="60" stroke-width="4" transform="rotate(315)" />\<newline>'' @
     TAB @ ''</g>\<newline>'' @
     ''</g>\<newline>''\<close>

definition SVG_MOON :: string where
  \<open>SVG_MOON =
     ''\<newline>'' @
     ''<g fill="#E0E0E0">\<newline>'' @
     TAB @ ''<circle r="50" cx="100" cy="100" />\<newline>'' @
     TAB @ ''<g fill="#CCCCCC">\<newline>'' @
     TAB @ TAB @ ''<circle r="10" cx="80" cy="90" />\<newline>'' @
     TAB @ TAB @ ''<circle r="7" cx="115" cy="110" />\<newline>'' @
     TAB @ TAB @ ''<circle r="8" cx="90" cy="120" />\<newline>'' @
     TAB @ ''</g>\<newline>'' @
     ''</g>\<newline>''\<close>

definition SVG_CLOUD :: string where
  \<open>SVG_CLOUD =
     ''\<newline>'' @
     ''<g fill="#ACACAC">\<newline>'' @
     TAB @ ''<circle r="40" cx="120" cy="70" />\<newline>'' @
     TAB @ ''<circle r="35" cx="70" cy="90" />\<newline>'' @
     TAB @ ''<circle r="40" cx="140" cy="90" />\<newline>'' @
     TAB @ ''<circle r="35" cx="100" cy="105" />\<newline>'' @
     ''</g>\<newline>''\<close>

definition SVG_PARTLY_CLOUDY_TRANSFORM :: string where
  \<open>SVG_PARTLY_CLOUDY_TRANSFORM = ''transform="translate(20 50)"''\<close>

definition SVG_RAIN :: string where
  \<open>SVG_RAIN =
     ''\<newline>'' @
     ''<g stroke="#1F90CC" stroke-width="2" transform="translate(100 100) rotate(25)">\<newline>'' @
     TAB @ ''<line x1="0" x2="0" y1="35" y2="60" transform="translate(10 20)"   />\<newline>'' @
     TAB @ ''<line x1="0" x2="0" y1="35" y2="60" transform="translate(-20 10)"  />\<newline>'' @
     TAB @ ''<line x1="0" x2="0" y1="35" y2="60" transform="translate(0 0)"     />\<newline>'' @
     TAB @ ''<line x1="0" x2="0" y1="35" y2="60" transform="translate(30 30)"   />\<newline>'' @
     TAB @ ''<line x1="0" x2="0" y1="35" y2="60" transform="translate(20 -10)"  />\<newline>'' @
     TAB @ ''<line x1="0" x2="0" y1="35" y2="60" transform="translate(40 -5)"   />\<newline>'' @
     TAB @ ''<line x1="0" x2="0" y1="35" y2="60" transform="translate(50 -30)"  />\<newline>'' @
     TAB @ ''<line x1="0" x2="0" y1="35" y2="60" transform="translate(-40 -10)" />\<newline>'' @
     TAB @ ''<line x1="0" x2="0" y1="35" y2="60" transform="translate(-30 40)"  />\<newline>'' @
     ''</g>\<newline>''\<close>

definition SVG_SNOW :: string where
  \<open>SVG_SNOW =
     ''\<newline>'' @
     ''<g fill="#FFFFFF" transform="translate(100 130)">\<newline>'' @
     TAB @ ''<circle r="7" cx="25" cy="15" />\<newline>'' @
     TAB @ ''<circle r="7" cx="35" cy="50" />\<newline>'' @
     TAB @ ''<circle r="7" cx="50" cy="20" />\<newline>'' @
     TAB @ ''<circle r="7" cx="10" cy="60" />\<newline>'' @
     TAB @ ''<circle r="7" cx="-50" cy="20" />\<newline>'' @
     TAB @ ''<circle r="7" cx="0" cy="35" />\<newline>'' @
     TAB @ ''<circle r="7" cx="-20" cy="10" />\<newline>'' @
     TAB @ ''<circle r="7" cx="-35" cy="45" />\<newline>'' @
     ''</g>''\<close>

definition SVG_WIND :: string where
  \<open>SVG_WIND =
     ''\<newline>'' @
     ''<g fill="none" stroke="#FFFFFF" stroke-width="3" transform="translate(0, 40)">\<newline>'' @
     TAB @ ''<g>\<newline>'' @
     TAB @ TAB @ ''<path d="M 10,30 Q 70,50 110,23 L 110,59" fill="#D9F4FF" />\<newline>'' @
     TAB @ TAB @ ''<circle r="20" cx="120" cy="40" fill="#D0EFFF" opacity="0.9"/>\<newline>'' @
     TAB @ ''</g>\<newline>'' @
     TAB @ ''<g transform="translate(20, 25)">\<newline>'' @
     TAB @ TAB @ ''<path d="M 30,30 Q 70,50 110,23 L 110,59" fill="#D9F4FF" />\<newline>'' @
     TAB @ TAB @ ''<circle r="20" cx="120" cy="40" fill="#D0EFFF" opacity="0.9"/>\<newline>'' @
     TAB @ ''</g>\<newline>'' @
     TAB @ ''<g transform="translate(50, 50)">\<newline>'' @
     TAB @ TAB @ ''<path d="M 40,30 Q 70,50 110,23 L 110,59" fill="#D9F4FF" />\<newline>'' @
     TAB @ TAB @ ''<circle r="20" cx="120" cy="40" fill="#D0EFFF" opacity="0.9"/>\<newline>'' @
     TAB @ ''</g>\<newline>'' @
     ''</g>\<newline>''\<close>

definition SVG_CREDIT :: string where
  \<open>SVG_CREDIT = ''<text fill="#606060" x="0" y="220" font-size="10" font-family="Helvetica">Powered By Dark Sky</text>''\<close>

section \<open>The pipeline\<close>

subsection \<open>requestJSON\<close>

text \<open>
  \<^verbatim>\<open>Request.getAsync(url).get(1).then(JSON.parse)\<close>: the promise rejects when the
  request itself fails; otherwise it resolves with the pair of the response and its
  body, of which \<^verbatim>\<open>get(1)\<close> takes the body, whatever response came back, and
  \<^verbatim>\<open>JSON.parse\<close> parses it. The status code of the response is not read.
\<close>

definition requestJSON :: "env \<Rightarrow> string \<Rightarrow> (error + jsval) \<times> effect list" where
  "requestJSON env url =
     ((case http_get env url of
         Failed msg \<Rightarrow> Inl (RequestError msg)
       | Response status body \<Rightarrow>
           (case JSON_parse env body of
              None \<Rightarrow> Inl SyntaxError
            | Some v \<Rightarrow> Inr v)),
      [HttpGet url])"

subsection \<open>getLocation\<close>

text \<open>
  The callback that \<^verbatim>\<open>getLocation\<close> chains on the parsed geolocation response
  (lines 76 to 86).
\<close>

definition getLocation_then :: "jsval \<Rightarrow> error + jsval" where
  "getLocation_then ipData =
     (case getprop ipData ''lat'' of
        Inl e \<Rightarrow> Inl e
      | Inr lat \<Rightarrow>
          (case getprop ipData ''lon'' of
             Inl e \<Rightarrow> Inl e
           | Inr long \<Rightarrow>
               if \<not> truthy lat \<or> \<not> truthy long
               then Inl (Error ''Unable to find your location'')
               else Inr (JArr [lat, long])))"

text \<open>
  \<^verbatim>\<open>ip[ip.length - 1]\<close> is the last address found, and \<^verbatim>\<open>undefined\<close> when the array
  is empty. The URL is built before the request is sent, so an address that cannot be
  converted to a string throws after the warning and before any request.
\<close>

definition getLocation :: "env \<Rightarrow> request \<Rightarrow> (error + jsval) \<times> effect list" where
  "getLocation env req =
     (let ip = proxyaddr_all env req;
          ip = (if ip = [] then JUndefined else last ip);
          (ip, warned) =
            (if \<not> truthy ip
             then (JStr ''156.74.181.208'', [ConsoleWarn ''Unable to determine remote IP Address''])
             else (ip, []))
      in (case ToString (Number_toString env) ip of
            Inl e \<Rightarrow> (Inl e, warned)
          | Inr address \<Rightarrow>
              (let (ipData, requested) = requestJSON env (IP_LOOKUP_BASE_URL @ address)
               in ((case ipData of Inl e \<Rightarrow> Inl e | Inr ipData \<Rightarrow> getLocation_then ipData),
                   warned @ requested))))"

subsection \<open>getWeather\<close>

text \<open>
  The URL is built from left to right: the read of the key, then the conversion of the
  key, of \<^verbatim>\<open>lat\<close> and of \<^verbatim>\<open>long\<close>. Each can throw a TypeError, and then no request
  is sent.
\<close>

definition getWeather :: "env \<Rightarrow> request \<Rightarrow> jsval \<Rightarrow> jsval \<Rightarrow> (error + jsval) \<times> effect list" where
  "getWeather env req lat long =
     (case getprop (webtaskContext req) ''secrets'' of
        Inl e \<Rightarrow> (Inl e, [])
      | Inr secrets \<Rightarrow>
          (case getprop secrets ''DARKSKY_API_KEY'' of
             Inl e \<Rightarrow> (Inl e, [])
           | Inr key \<Rightarrow>
               (case ToString (Number_toString env) key of
                  Inl e \<Rightarrow> (Inl e, [])
                | Inr key \<Rightarrow>
                    (case ToString (Number_toString env) lat of
                       Inl e \<Rightarrow> (Inl e, [])
                     | Inr lat \<Rightarrow>
                         (case ToString (Number_toString env) long of
                            Inl e \<Rightarrow> (Inl e, [])
                          | Inr long \<Rightarrow>
                              (let weatherUrl =
                                     WEATHER_LOOKUP_BASE_URL @ key @ ''/'' @ lat @ '','' @ long
                               in requestJSON env weatherUrl))))))"

subsection \<open>getIcon\<close>

text \<open>
  The first \<^verbatim>\<open>switch\<close> (lines 125 to 148): the bottom layer. The cases compare
  \<^verbatim>\<open>icon\<close> with string literals by \<^verbatim>\<open>===\<close>, so a value that is not one of these
  strings takes no branch.
\<close>

definition draw_bottom :: "jsval \<Rightarrow> string \<Rightarrow> string" where
  "draw_bottom icon svg =
     (if icon = JStr ''clear-day'' \<or> icon = JStr ''partly-cloudy-day'' then svg @ SVG_SUN
      else if icon = JStr ''clear-night'' \<or> icon = JStr ''partly-cloudy-night'' then svg @ SVG_MOON
      else if icon = JStr ''rain'' then svg @ SVG_RAIN
      else if icon = JStr ''snow'' \<or> icon = JStr ''hail'' then svg @ SVG_SNOW
      else if icon = JStr ''sleet'' then (svg @ SVG_RAIN) @ SVG_SNOW
      else if icon = JStr ''wind'' then svg @ SVG_WIND
      else svg)"

text \<open>
  The second \<^verbatim>\<open>switch\<close> (lines 151 to 162): the cloud on top. The partly-cloudy cases
  open the group and fall through to the default case, which draws the cloud.
\<close>

definition draw_cloud :: "jsval \<Rightarrow> string \<Rightarrow> string" where
  "draw_cloud icon svg =
     (if icon = JStr ''clear-day'' \<or> icon = JStr ''clear-night'' \<or> icon = JStr ''wind'' then svg
      else
        (let svg =
               (if icon = JStr ''partly-cloudy-day'' \<or> icon = JStr ''partly-cloudy-night''
                then svg @ (''<g '' @ SVG_PARTLY_CLOUDY_TRANSFORM @ ''>'')
                else svg)
         in svg @ SVG_CLOUD))"

text \<open>The \<^verbatim>\<open>if\<close> that closes the group of the partly-cloudy icons (lines 165 to 167).\<close>

definition close_group :: "jsval \<Rightarrow> string \<Rightarrow> string" where
  "close_group icon svg =
     (if icon = JStr ''partly-cloudy-day'' \<or> icon = JStr ''partly-cloudy-night''
      then svg @ ''</g>''
      else svg)"

text \<open>
  The body of \<^verbatim>\<open>getIcon\<close> after the read of \<^verbatim>\<open>icon\<close> (lines 120 to 172): the
  declaration, the two layers, the end of the group, the credit and the closing tag. The
  read itself (line 118) throws when \<^verbatim>\<open>weather\<close> or \<^verbatim>\<open>weather.currently\<close> is
  \<^verbatim>\<open>undefined\<close> or \<^verbatim>\<open>null\<close>.
\<close>

definition icon_svg :: "jsval \<Rightarrow> string" where
  "icon_svg icon =
     (let svg = SVG_BASE;
          svg = draw_bottom icon svg;
          svg = draw_cloud icon svg;
          svg = close_group icon svg;
          svg = svg @ SVG_CREDIT
      in svg @ ''</svg>'')"

definition getIcon :: "jsval \<Rightarrow> error + string" where
  "getIcon weather =
     (case getprop weather ''currently'' of
        Inl e \<Rightarrow> Inl e
      | Inr currently \<Rightarrow>
          (case getprop currently ''icon'' of
             Inl e \<Rightarrow> Inl e
           | Inr icon \<Rightarrow> Inr (icon_svg icon)))"

section \<open>Vocabulary of the properties\<close>

text \<open>The condition codes that the two \<^verbatim>\<open>switch\<close> statements of \<^verbatim>\<open>getIcon\<close> name.\<close>

definition condition_codes :: "string list" where
  "condition_codes =
     [''clear-day'', ''clear-night'', ''partly-cloudy-day'', ''partly-cloudy-night'',
      ''rain'', ''snow'', ''hail'', ''sleet'', ''wind'']"

text \<open>The opening tag of the group that moves the cloud of the partly-cloudy icons.\<close>

definition translating_group :: string where
  \<open>translating_group = ''<g transform="translate(20 50)">''\<close>

text \<open>
  How often a text occurs in a document (at how many positions it starts), and whether
  two given characters stand next to each other somewhere in it.
\<close>

fun occurrences :: "'a list \<Rightarrow> 'a list \<Rightarrow> nat" where
  "occurrences p [] = (if p = [] then 1 else 0)"
| "occurrences p (y # ys) = (if prefix p (y # ys) then 1 else 0) + occurrences p ys"

fun adjacent :: "'a \<Rightarrow> 'a \<Rightarrow> 'a list \<Rightarrow> bool" where
  "adjacent x y [] = False"
| "adjacent x y [a] = False"
| "adjacent x y (a # b # s) = ((a = x \<and> b = y) \<or> adjacent x y (b # s))"

text \<open>
  Kinds of values a field can hold: an object; a number; a number that is zero or not a
  number at all; and a field that is missing (\<^verbatim>\<open>undefined\<close>), \<^verbatim>\<open>null\<close>,
  \<^verbatim>\<open>false\<close> or the empty string.
\<close>

fun is_object :: "jsval \<Rightarrow> bool" where
  "is_object (JObj kvs) = True"
| "is_object v = False"

fun is_number :: "jsval \<Rightarrow> bool" where
  "is_number (JNum n) = True"
| "is_number v = False"

fun zero_or_nan :: "jsval \<Rightarrow> bool" where
  "zero_or_nan (JNum n) = (n = Finite 0 \<or> n = NegZero \<or> n = NaN)"
| "zero_or_nan v = False"

fun missing_or_empty :: "jsval \<Rightarrow> bool" where
  "missing_or_empty JUndefined = True"
| "missing_or_empty JNull = True"
| "missing_or_empty (JBool b) = (\<not> b)"
| "missing_or_empty (JStr s) = (s = [])"
| "missing_or_empty v = False"

section \<open>Sample data\<close>

text \<open>
  Weather payloads as the weather API sends them, cut down to a few fields, a payload
  whose \<^verbatim>\<open>currently\<close> is a string instead of an object, and the body with which the
  API refuses a request.
\<close>

definition sample_weather :: "jsval \<Rightarrow> jsval" where
  "sample_weather icon =
     JObj [(''timezone'', JStr ''America/Los_Angeles''),
           (''currently'', JObj [(''summary'', JStr ''Overcast''), (''icon'', icon)])]"

definition sample_forecast :: "jsval \<Rightarrow> jsval" where
  "sample_forecast icon =
     JObj [(''latitude'', JNum (Finite (476 / 10))),
           (''currently'', JObj [(''icon'', icon), (''temperature'', JNum (Finite 54))]),
           (''daily'', JObj [(''icon'', JStr ''clear-day'')])]"

definition sample_flat :: jsval where
  "sample_flat = JObj [(''timezone'', JStr ''America/Los_Angeles''), (''currently'', JStr ''rain'')]"

definition sample_refusal :: jsval where
  "sample_refusal = JObj [(''code'', JNum (Finite 403)), (''error'', JStr ''permission denied'')]"

text \<open>Geolocation responses: a location found, and the lookup of a reserved address.\<close>

definition sample_location :: jsval where
  "sample_location =
     JObj [(''status'', JStr ''success''), (''city'', JStr ''Seattle''),
           (''lat'', JNum (Finite (476 / 10))), (''lon'', JNum (Finite (- 1223 / 10)))]"

definition sample_location_failure :: jsval where
  "sample_location_failure =
     JObj [(''status'', JStr ''fail''), (''message'', JStr ''reserved range'')]"

text \<open>
  A request that arrives without a remote address and carries the API key, and a world
  in which every HTTP GET has the given outcome. \<open>sample_parse\<close> is what
  \<^verbatim>\<open>JSON.parse\<close> gives on the three bodies the examples use (and on nothing else),
  \<open>sample_print\<close> how the two sample coordinates print.
\<close>

definition sample_request :: request where
  "sample_request =
     \<lparr>remoteAddress = JUndefined, forwardedFor = JUndefined,
      webtaskContext = JObj [(''secrets'', JObj [(''DARKSKY_API_KEY'', JStr ''0123456789abcdef'')])]\<rparr>"

definition sample_parse :: "string \<Rightarrow> jsval option" where
  \<open>sample_parse body =
     (if body = ''{"code":403,"error":"permission denied"}''
      then Some (JObj [(''code'', JNum (Finite 403)), (''error'', JStr ''permission denied'')])
      else if body = ''{"currently":{"icon":"rain"}}''
      then Some (JObj [(''currently'', JObj [(''icon'', JStr ''rain'')])])
      else if body = ''{"status":"fail","message":"reserved range"}''
      then Some (JObj [(''status'', JStr ''fail''), (''message'', JStr ''reserved range'')])
      else None)\<close>

definition sample_print :: "number \<Rightarrow> string" where
  "sample_print n = (if n = Finite (476 / 10) then ''47.6'' else ''-122.3'')"

definition sample_env :: "http_outcome \<Rightarrow> env" where
  "sample_env outcome =
     \<lparr>proxyaddr_all = (\<lambda>req. [remoteAddress req]),
      http_get = (\<lambda>url. outcome),
      JSON_parse = sample_parse,
      Number_toString = sample_print\<rparr>"

section \<open>Facts about lists\<close>

lemma not_sublist_by_char: "c \<in> set xs \<Longrightarrow> c \<notin> set ys \<Longrightarrow> \<not> sublist xs ys"
  using set_mono_sublist by fastforce

lemma sublist_pair_adjacent: "sublist [x, y] s \<longleftrightarrow> adjacent x y s"
proof (induction x y s rule: adjacent.induct)
  case (1 x y)
  then show ?case by simp
next
  case (2 x y a)
  then show ?case by (simp add: sublist_Cons_right)
next
  case (3 x y a b s)
  then show ?case by (auto simp: sublist_Cons_right)
qed

lemma not_sublist_by_pair:
  assumes "sublist [x, y] p" and "\<not> adjacent x y s"
  shows "\<not> sublist p s"
proof
  assume "sublist p s"
  with assms(1) have "sublist [x, y] s" by (rule sublist_order.order_trans)
  with assms(2) show False by (simp add: sublist_pair_adjacent)
qed

lemma occurrences_pos: "sublist p s \<Longrightarrow> 0 < occurrences p s"
  by (induction s) (auto simp: sublist_Cons_right)

lemma count_list_drop_Suc_le: "count_list (drop (Suc j) ys) c \<le> count_list (drop j ys) c"
proof (cases "j < length ys")
  case True
  then have "drop j ys = ys ! j # drop (Suc j) ys" by (simp add: Cons_nth_drop_Suc)
  then show ?thesis by simp
next
  case False
  then show ?thesis by simp
qed

lemma occurrences_le_count_drop:
  "k < length p \<Longrightarrow> occurrences p s \<le> count_list (drop k s) (p ! k)"
proof (induction s)
  case Nil
  then show ?case by auto
next
  case (Cons y ys)
  show ?case
  proof (cases k)
    case 0
    with Cons show ?thesis by (cases p) (auto simp: prefix_Cons)
  next
    case (Suc j)
    show ?thesis
    proof (cases "prefix p (y # ys)")
      case True
      then obtain zs where yz: "y # ys = p @ zs" by (auto simp: prefix_def)
      with Cons.prems Suc have j: "j < length ys" and nth: "ys ! j = p ! k"
        by (auto simp: nth_append dest: arg_cong [where f = "\<lambda>l. l ! k"] arg_cong [where f = length])
      then have "drop j ys = p ! k # drop (Suc j) ys" by (metis Cons_nth_drop_Suc)
      with Cons Suc True show ?thesis by simp
    next
      case False
      with Cons Suc count_list_drop_Suc_le [of j ys "p ! k"] show ?thesis by simp
    qed
  qed
qed

lemma occurrences_le_count:
  assumes "c \<in> set p"
  shows "occurrences p s \<le> count_list s c"
proof -
  from assms obtain k where k: "k < length p" "p ! k = c" by (auto simp: in_set_conv_nth)
  have "count_list s c = count_list (take k s) c + count_list (drop k s) c"
    by (metis append_take_drop_id count_list_append)
  with occurrences_le_count_drop [OF k(1), of s] k(2) show ?thesis by simp
qed

lemma occurrences_once:
  assumes "c \<in> set p" "count_list p c = 1" "c \<notin> set a" "c \<notin> set z"
  shows "occurrences p (a @ p @ z) = 1"
proof -
  have "count_list (a @ p @ z) c = 1" using assms by (simp add: count_list_0_iff)
  with occurrences_le_count [OF assms(1), of "a @ p @ z"] have "occurrences p (a @ p @ z) \<le> 1" by simp
  moreover have "0 < occurrences p (a @ p @ z)" by (rule occurrences_pos) (simp add: sublist_def, blast)
  ultimately show ?thesis by simp
qed

section \<open>Facts about the values\<close>

lemma truthy_iff: "truthy v \<longleftrightarrow> \<not> missing_or_empty v \<and> \<not> zero_or_nan v"
  by (cases v) auto

section \<open>The fragments and the documents\<close>

lemmas fragment_defs =
  TAB_def SVG_BASE_def SVG_SUN_def SVG_MOON_def SVG_CLOUD_def SVG_RAIN_def SVG_SNOW_def
  SVG_WIND_def SVG_CREDIT_def

lemma getIcon_icon:
  "getprop weather ''currently'' = Inr currently \<Longrightarrow> getprop currently ''icon'' = Inr icon \<Longrightarrow>
   getIcon weather = Inr (icon_svg icon)"
  by (simp add: getIcon_def)

lemmas icon_svg_defs =
  icon_svg_def draw_bottom_def draw_cloud_def close_group_def
  translating_group_def SVG_PARTLY_CLOUDY_TRANSFORM_def

lemma icon_svg_clear_day:
  "icon_svg (JStr ''clear-day'') = SVG_BASE @ SVG_SUN @ SVG_CREDIT @ ''</svg>''"
  by (simp add: icon_svg_defs)

lemma icon_svg_clear_night:
  "icon_svg (JStr ''clear-night'') = SVG_BASE @ SVG_MOON @ SVG_CREDIT @ ''</svg>''"
  by (simp add: icon_svg_defs)

lemma icon_svg_partly_cloudy_day:
  "icon_svg (JStr ''partly-cloudy-day'') =
     SVG_BASE @ SVG_SUN @ translating_group @ SVG_CLOUD @ ''</g>'' @ SVG_CREDIT @ ''</svg>''"
  by (simp add: icon_svg_defs)

lemma icon_svg_partly_cloudy_night:
  "icon_svg (JStr ''partly-cloudy-night'') =
     SVG_BASE @ SVG_MOON @ translating_group @ SVG_CLOUD @ ''</g>'' @ SVG_CREDIT @ ''</svg>''"
  by (simp add: icon_svg_defs)

lemma icon_svg_rain:
  "icon_svg (JStr ''rain'') = SVG_BASE @ SVG_RAIN @ SVG_CLOUD @ SVG_CREDIT @ ''</svg>''"
  by (simp add: icon_svg_defs)

lemma icon_svg_snow:
  "icon_svg (JStr ''snow'') = SVG_BASE @ SVG_SNOW @ SVG_CLOUD @ SVG_CREDIT @ ''</svg>''"
  by (simp add: icon_svg_defs)

lemma icon_svg_hail:
  "icon_svg (JStr ''hail'') = SVG_BASE @ SVG_SNOW @ SVG_CLOUD @ SVG_CREDIT @ ''</svg>''"
  by (simp add: icon_svg_defs)

lemma icon_svg_sleet:
  "icon_svg (JStr ''sleet'') =
     SVG_BASE @ SVG_RAIN @ SVG_SNOW @ SVG_CLOUD @ SVG_CREDIT @ ''</svg>''"
  by (simp add: icon_svg_defs)

lemma icon_svg_wind:
  "icon_svg (JStr ''wind'') = SVG_BASE @ SVG_WIND @ SVG_CREDIT @ ''</svg>''"
  by (simp add: icon_svg_defs)

lemma icon_svg_unknown:
  "icon \<notin> JStr ` set condition_codes \<Longrightarrow>
   icon_svg icon = SVG_BASE @ SVG_CLOUD @ SVG_CREDIT @ ''</svg>''"
  by (simp add: icon_svg_defs condition_codes_def)

lemma icon_cases:
  obtains "icon = JStr ''clear-day''" | "icon = JStr ''clear-night''"
  | "icon = JStr ''partly-cloudy-day''" | "icon = JStr ''partly-cloudy-night''"
  | "icon = JStr ''rain''" | "icon = JStr ''snow''" | "icon = JStr ''hail''"
  | "icon = JStr ''sleet''" | "icon = JStr ''wind''"
  | "icon \<notin> JStr ` set condition_codes"
  by (auto simp: condition_codes_def)

lemma has_E: "CHR ''E'' \<in> set SVG_SUN" "CHR ''E'' \<in> set SVG_MOON"
  by (simp_all add: fragment_defs)

lemma no_E:
  "CHR ''E'' \<notin> set SVG_BASE" "CHR ''E'' \<notin> set SVG_CLOUD" "CHR ''E'' \<notin> set SVG_CREDIT"
  by (simp_all add: fragment_defs)

lemma has_paren:
  "CHR ''('' \<in> set SVG_RAIN" "CHR ''('' \<in> set SVG_SNOW" "CHR ''('' \<in> set SVG_WIND"
  by (simp_all add: fragment_defs)

lemma no_paren:
  "CHR ''('' \<notin> set SVG_BASE" "CHR ''('' \<notin> set SVG_CLOUD" "CHR ''('' \<notin> set SVG_CREDIT"
  by (simp_all add: fragment_defs)

lemma has_A: "CHR ''A'' \<in> set SVG_CLOUD"
  by (simp add: fragment_defs)

lemma no_A:
  "CHR ''A'' \<notin> set SVG_BASE" "CHR ''A'' \<notin> set SVG_SUN" "CHR ''A'' \<notin> set SVG_MOON"
  "CHR ''A'' \<notin> set SVG_WIND" "CHR ''A'' \<notin> set SVG_CREDIT"
  by (simp_all add: fragment_defs)

lemma credit_H: "CHR ''H'' \<in> set SVG_CREDIT" "count_list SVG_CREDIT (CHR ''H'') = 1"
  by (simp_all add: fragment_defs)

lemma no_H:
  "CHR ''H'' \<notin> set SVG_BASE" "CHR ''H'' \<notin> set SVG_SUN" "CHR ''H'' \<notin> set SVG_MOON"
  "CHR ''H'' \<notin> set SVG_CLOUD" "CHR ''H'' \<notin> set SVG_RAIN" "CHR ''H'' \<notin> set SVG_SNOW"
  "CHR ''H'' \<notin> set SVG_WIND" "CHR ''H'' \<notin> set translating_group"
  by (simp_all add: fragment_defs translating_group_def)

lemma group_pair: "sublist [CHR '' '', CHR ''5''] translating_group"
  by (simp add: translating_group_def sublist_pair_adjacent)

lemma no_pair:
  "\<not> adjacent (CHR '' '') (CHR ''5'') (SVG_BASE @ SVG_RAIN @ SVG_CLOUD @ SVG_CREDIT @ ''</svg>'')"
  "\<not> adjacent (CHR '' '') (CHR ''5'') (SVG_BASE @ SVG_SNOW @ SVG_CLOUD @ SVG_CREDIT @ ''</svg>'')"
  "\<not> adjacent (CHR '' '') (CHR ''5'')
       (SVG_BASE @ SVG_RAIN @ SVG_SNOW @ SVG_CLOUD @ SVG_CREDIT @ ''</svg>'')"
  "\<not> adjacent (CHR '' '') (CHR ''5'') (SVG_BASE @ SVG_CLOUD @ SVG_CREDIT @ ''</svg>'')"
  by (simp_all add: fragment_defs)


lemma draw_bottom_append: "draw_bottom icon svg = svg @ draw_bottom icon []"
  by (simp add: draw_bottom_def)

lemma draw_cloud_append: "draw_cloud icon svg = svg @ draw_cloud icon []"
  by (simp add: draw_cloud_def)

lemma close_group_append: "close_group icon svg = svg @ close_group icon []"
  by (simp add: close_group_def)

lemma icon_svg_shape:
  "icon_svg icon =
     (SVG_BASE @ draw_bottom icon [] @ draw_cloud icon [] @ close_group icon []) @
     SVG_CREDIT @ ''</svg>''"
  unfolding icon_svg_def Let_def
  by (subst close_group_append, subst draw_cloud_append, subst draw_bottom_append) simp

lemma layers_no_H:
  "CHR ''H'' \<notin> set (draw_bottom icon [])" "CHR ''H'' \<notin> set (draw_cloud icon [])"
  "CHR ''H'' \<notin> set (close_group icon [])"
  by (simp_all add: draw_bottom_def draw_cloud_def close_group_def no_H
        SVG_PARTLY_CLOUDY_TRANSFORM_def)

section \<open>The address resolver\<close>

text \<open>
  C7. When the address walk finds no client address (the array it returns is empty, or
  its last entry is \<^verbatim>\<open>undefined\<close> or an empty string), \<^verbatim>\<open>getLocation\<close> logs its
  warning and sends exactly one request, the geolocation lookup of the fixed address
  156.74.181.208.
\<close>

theorem getLocation_fallback_address:
  assumes "proxyaddr_all env req = [] \<or> \<not> truthy (last (proxyaddr_all env req))"
  shows "snd (getLocation env req) =
           [ConsoleWarn ''Unable to determine remote IP Address'',
            HttpGet ''http://ip-api.com/json/156.74.181.208'']"
  using assms
  by (auto simp: getLocation_def requestJSON_def Let_def IP_LOOKUP_BASE_URL_def)

theorem getLocation_fallback_address_witness:
  \<open>proxyaddr_all (sample_env (Response 200 ''{"status":"fail","message":"reserved range"}''))
     sample_request = [JUndefined] \<and>
   snd (getLocation (sample_env (Response 200 ''{"status":"fail","message":"reserved range"}''))
          sample_request) =
     [ConsoleWarn ''Unable to determine remote IP Address'',
      HttpGet ''http://ip-api.com/json/156.74.181.208'']\<close>
  using getLocation_fallback_address
    [of \<open>sample_env (Response 200 ''{"status":"fail","message":"reserved range"}'')\<close>
        sample_request]
  by (simp add: sample_env_def sample_request_def)

text \<open>
  C1, as the code has it. The callback tests the two coordinates for truthiness, not
  for being numbers. For a response whose \<^verbatim>\<open>lat\<close> and \<^verbatim>\<open>lon\<close> are not the number
  zero (nor NaN): it fails with the error \<^verbatim>\<open>Unable to find your location\<close> exactly
  when one of the two is missing, \<^verbatim>\<open>null\<close>, \<^verbatim>\<open>false\<close> or the empty string, and
  otherwise it resolves with the pair \<^verbatim>\<open>[lat, lon]\<close>, for numbers and for values that
  are not numbers alike.
\<close>

theorem getLocation_then_outcome:
  assumes "getprop ipData ''lat'' = Inr lat" and "getprop ipData ''lon'' = Inr long"
    and "\<not> zero_or_nan lat" and "\<not> zero_or_nan long"
  shows "getLocation_then ipData =
           (if missing_or_empty lat \<or> missing_or_empty long
            then Inl (Error ''Unable to find your location'')
            else Inr (JArr [lat, long]))"
  using assms by (simp add: getLocation_then_def truthy_iff)

theorem getLocation_then_outcome_witness:
  "getprop sample_location ''lat'' = Inr (JNum (Finite (476 / 10))) \<and>
   getprop sample_location ''lon'' = Inr (JNum (Finite (- 1223 / 10))) \<and>
   \<not> zero_or_nan (JNum (Finite (476 / 10))) \<and> \<not> zero_or_nan (JNum (Finite (- 1223 / 10))) \<and>
   getLocation_then sample_location =
     Inr (JArr [JNum (Finite (476 / 10)), JNum (Finite (- 1223 / 10))]) \<and>
   getprop sample_location_failure ''lat'' = Inr JUndefined \<and>
   getprop sample_location_failure ''lon'' = Inr JUndefined \<and>
   \<not> zero_or_nan JUndefined \<and>
   getLocation_then sample_location_failure = Inl (Error ''Unable to find your location'')"
  using
    getLocation_then_outcome
      [of sample_location "JNum (Finite (476 / 10))" "JNum (Finite (- 1223 / 10))"]
    getLocation_then_outcome [of sample_location_failure JUndefined JUndefined]
  by (simp add: sample_location_def sample_location_failure_def)

text \<open>
  The claim C1 as it was stated fails on coordinates that are not numbers: a response
  that carries them as non-empty strings resolves with the pair of strings.
\<close>

theorem getLocation_then_counterexample:
  "\<not> is_number (JStr ''47.6'') \<and> \<not> is_number (JStr ''-122.3'') \<and>
   getLocation_then (JObj [(''lat'', JStr ''47.6''), (''lon'', JStr ''-122.3'')]) =
     Inr (JArr [JStr ''47.6'', JStr ''-122.3''])"
  by (simp add: getLocation_then_def)

section \<open>The weather fetcher\<close>

text \<open>
  C2, as the code has it. Whenever \<^verbatim>\<open>getWeather\<close> sends its request: if the request
  fails on the network, \<^verbatim>\<open>getWeather\<close> fails with that error; if a response comes
  back, whatever its status code, the result is the result of parsing its body, a
  SyntaxError when the body is not JSON and the parsed payload when it is.
\<close>

theorem getWeather_outcome:
  assumes "snd (getWeather env req lat long) = [HttpGet url]"
  shows "(\<forall>msg. http_get env url = Failed msg \<longrightarrow>
            fst (getWeather env req lat long) = Inl (RequestError msg)) \<and>
         (\<forall>status body. http_get env url = Response status body \<longrightarrow>
            fst (getWeather env req lat long) =
              (case JSON_parse env body of None \<Rightarrow> Inl SyntaxError | Some v \<Rightarrow> Inr v))"
  using assms
  by (auto simp: getWeather_def requestJSON_def Let_def split: sum.splits)

lemma sample_weather_url:
  "snd (getWeather (sample_env outcome) sample_request
          (JNum (Finite (476 / 10))) (JNum (Finite (- 1223 / 10)))) =
     [HttpGet ''https://api.darksky.net/forecast/0123456789abcdef/47.6,-122.3'']"
  by (simp add: getWeather_def requestJSON_def sample_env_def sample_request_def
        sample_print_def WEATHER_LOOKUP_BASE_URL_def)

theorem getWeather_outcome_witness:
  \<open>snd (getWeather (sample_env (Failed ''ETIMEDOUT'')) sample_request
          (JNum (Finite (476 / 10))) (JNum (Finite (- 1223 / 10)))) =
     [HttpGet ''https://api.darksky.net/forecast/0123456789abcdef/47.6,-122.3''] \<and>
   fst (getWeather (sample_env (Failed ''ETIMEDOUT'')) sample_request
          (JNum (Finite (476 / 10))) (JNum (Finite (- 1223 / 10)))) =
     Inl (RequestError ''ETIMEDOUT'') \<and>
   fst (getWeather (sample_env (Response 503 ''<html>'')) sample_request
          (JNum (Finite (476 / 10))) (JNum (Finite (- 1223 / 10)))) =
     Inl SyntaxError \<and>
   fst (getWeather (sample_env (Response 200 ''{"currently":{"icon":"rain"}}'')) sample_request
          (JNum (Finite (476 / 10))) (JNum (Finite (- 1223 / 10)))) =
     Inr (JObj [(''currently'', JObj [(''icon'', JStr ''rain'')])])\<close>
  using
    getWeather_outcome [OF sample_weather_url [of "Failed ''ETIMEDOUT''"]]
    getWeather_outcome [OF sample_weather_url [of "Response 503 ''<html>''"]]
    getWeather_outcome
      [OF sample_weather_url [of \<open>Response 200 ''{"currently":{"icon":"rain"}}''\<close>]]
    sample_weather_url [of "Failed ''ETIMEDOUT''"]
  by (simp add: sample_env_def sample_parse_def)

text \<open>
  The claim C2 as it was stated fails on a response outside the 2xx range whose body is
  JSON: the status 403 with the body of a refusal yields that body, parsed, as the
  weather payload.
\<close>

theorem getWeather_status_counterexample:
  \<open>http_get (sample_env (Response 403 ''{"code":403,"error":"permission denied"}''))
     ''https://api.darksky.net/forecast/0123456789abcdef/47.6,-122.3'' =
     Response 403 ''{"code":403,"error":"permission denied"}'' \<and>
   \<not> (200 \<le> (403::nat) \<and> (403::nat) < 300) \<and>
   getWeather (sample_env (Response 403 ''{"code":403,"error":"permission denied"}''))
     sample_request (JNum (Finite (476 / 10))) (JNum (Finite (- 1223 / 10))) =
     (Inr (JObj [(''code'', JNum (Finite 403)), (''error'', JStr ''permission denied'')]),
      [HttpGet ''https://api.darksky.net/forecast/0123456789abcdef/47.6,-122.3''])\<close>
  by (simp add: getWeather_def requestJSON_def sample_env_def sample_request_def
        sample_print_def sample_parse_def WEATHER_LOOKUP_BASE_URL_def)

section \<open>The icon renderer\<close>

text \<open>
  C3. A payload whose \<^verbatim>\<open>currently.icon\<close> is not one of the nine condition codes
  (any other string, or any value that is not a string) renders without a bottom layer:
  the document contains none of the sun, moon, rain, snow and wind fragments, and it
  contains the cloud fragment and the credit text.
\<close>

theorem unknown_icon_cloud_only:
  assumes "getprop weather ''currently'' = Inr currently"
    and "getprop currently ''icon'' = Inr icon"
    and "icon \<notin> JStr ` set condition_codes"
  shows "getIcon weather = Inr (icon_svg icon) \<and>
         \<not> sublist SVG_SUN (icon_svg icon) \<and> \<not> sublist SVG_MOON (icon_svg icon) \<and>
         \<not> sublist SVG_RAIN (icon_svg icon) \<and> \<not> sublist SVG_SNOW (icon_svg icon) \<and>
         \<not> sublist SVG_WIND (icon_svg icon) \<and>
         sublist SVG_CLOUD (icon_svg icon) \<and> sublist SVG_CREDIT (icon_svg icon)"
proof -
  have out: "icon_svg icon = SVG_BASE @ SVG_CLOUD @ SVG_CREDIT @ ''</svg>''"
    using assms(3) by (rule icon_svg_unknown)
  have E: "CHR ''E'' \<notin> set (icon_svg icon)" and P: "CHR ''('' \<notin> set (icon_svg icon)"
    by (simp_all add: out no_E no_paren)
  have "sublist SVG_CLOUD (icon_svg icon)"
    unfolding out by (rule sublist_appendI)
  moreover have "sublist SVG_CREDIT (icon_svg icon)"
    unfolding out using sublist_appendI [of SVG_CREDIT "SVG_BASE @ SVG_CLOUD" "''</svg>''"] by simp
  ultimately show ?thesis
    using getIcon_icon [OF assms(1,2)] has_E has_paren E P
    by (simp add: not_sublist_by_char)
qed

theorem unknown_icon_cloud_only_witness:
  "getprop (sample_weather (JStr ''fog'')) ''currently'' =
     Inr (JObj [(''summary'', JStr ''Overcast''), (''icon'', JStr ''fog'')]) \<and>
   getprop (JObj [(''summary'', JStr ''Overcast''), (''icon'', JStr ''fog'')]) ''icon'' =
     Inr (JStr ''fog'') \<and>
   JStr ''fog'' \<notin> JStr ` set condition_codes \<and>
   getIcon (sample_weather (JStr ''fog'')) = Inr (icon_svg (JStr ''fog'')) \<and>
   \<not> sublist SVG_SUN (icon_svg (JStr ''fog'')) \<and> \<not> sublist SVG_MOON (icon_svg (JStr ''fog'')) \<and>
   \<not> sublist SVG_RAIN (icon_svg (JStr ''fog'')) \<and> \<not> sublist SVG_SNOW (icon_svg (JStr ''fog'')) \<and>
   \<not> sublist SVG_WIND (icon_svg (JStr ''fog'')) \<and>
   sublist SVG_CLOUD (icon_svg (JStr ''fog'')) \<and> sublist SVG_CREDIT (icon_svg (JStr ''fog''))"
  using unknown_icon_cloud_only
    [of "sample_weather (JStr ''fog'')"
        "JObj [(''summary'', JStr ''Overcast''), (''icon'', JStr ''fog'')]" "JStr ''fog''"]
  by (simp add: sample_weather_def condition_codes_def)

text \<open>
  C4. For every value of \<^verbatim>\<open>currently.icon\<close>: the document lacks the cloud fragment
  exactly when the icon is clear-day, clear-night or wind; for partly-cloudy-day and
  partly-cloudy-night the cloud fragment stands between the opening tag of the
  translating group and a closing \<^verbatim>\<open></g>\<close>; for every other icon the cloud fragment
  is there and the opening tag of the translating group is not.
\<close>

theorem cloud_overlay_by_icon:
  assumes "getprop weather ''currently'' = Inr currently"
    and "getprop currently ''icon'' = Inr icon"
  shows "getIcon weather = Inr (icon_svg icon) \<and>
         (\<not> sublist SVG_CLOUD (icon_svg icon) \<longleftrightarrow>
            icon \<in> {JStr ''clear-day'', JStr ''clear-night'', JStr ''wind''}) \<and>
         (icon \<in> {JStr ''partly-cloudy-day'', JStr ''partly-cloudy-night''} \<longrightarrow>
            sublist (translating_group @ SVG_CLOUD @ ''</g>'') (icon_svg icon)) \<and>
         (icon \<notin> {JStr ''clear-day'', JStr ''clear-night'', JStr ''wind'',
                   JStr ''partly-cloudy-day'', JStr ''partly-cloudy-night''} \<longrightarrow>
            sublist SVG_CLOUD (icon_svg icon) \<and> \<not> sublist translating_group (icon_svg icon))"
proof -
  note absent = not_sublist_by_char [OF has_A]
  note unwrapped = not_sublist_by_pair [OF group_pair]
  have cloud_only: "?thesis"
    if "icon_svg icon = SVG_BASE @ base @ SVG_CLOUD @ SVG_CREDIT @ ''</svg>''"
      and "\<not> adjacent (CHR '' '') (CHR ''5'') (icon_svg icon)"
      and "icon \<notin> {JStr ''clear-day'', JStr ''clear-night'', JStr ''wind'',
                   JStr ''partly-cloudy-day'', JStr ''partly-cloudy-night''}"
    for base
  proof -
    have "sublist SVG_CLOUD (icon_svg icon)"
      unfolding that(1) using sublist_appendI [of SVG_CLOUD "SVG_BASE @ base"] by simp
    with that(2,3) unwrapped getIcon_icon [OF assms] show ?thesis by auto
  qed
  have no_cloud: "?thesis"
    if "icon_svg icon = SVG_BASE @ base @ SVG_CREDIT @ ''</svg>''"
      and "CHR ''A'' \<notin> set base"
      and "icon \<in> {JStr ''clear-day'', JStr ''clear-night'', JStr ''wind''}"
    for base
  proof -
    have "\<not> sublist SVG_CLOUD (icon_svg icon)"
      by (rule absent) (simp add: that(1,2) no_A)
    with that(3) getIcon_icon [OF assms] show ?thesis by auto
  qed
  have wrapped: "?thesis"
    if "icon_svg icon =
          SVG_BASE @ base @ translating_group @ SVG_CLOUD @ ''</g>'' @ SVG_CREDIT @ ''</svg>''"
      and "icon \<in> {JStr ''partly-cloudy-day'', JStr ''partly-cloudy-night''}"
    for base
  proof -
    have "sublist (translating_group @ SVG_CLOUD @ ''</g>'') (icon_svg icon)"
      unfolding that(1)
      using sublist_appendI
        [of "translating_group @ SVG_CLOUD @ ''</g>''" "SVG_BASE @ base" "SVG_CREDIT @ ''</svg>''"]
      by simp
    moreover have "sublist SVG_CLOUD (icon_svg icon)"
      unfolding that(1)
      using sublist_appendI [of SVG_CLOUD "SVG_BASE @ base @ translating_group"] by simp
    ultimately show ?thesis using that(2) getIcon_icon [OF assms] by auto
  qed
  show ?thesis
  proof (cases icon rule: icon_cases)
    case 1
    then show ?thesis by (intro no_cloud [of SVG_SUN]) (simp_all add: icon_svg_clear_day no_A)
  next
    case 2
    then show ?thesis by (intro no_cloud [of SVG_MOON]) (simp_all add: icon_svg_clear_night no_A)
  next
    case 3
    then show ?thesis by (intro wrapped [of SVG_SUN]) (simp_all add: icon_svg_partly_cloudy_day)
  next
    case 4
    then show ?thesis by (intro wrapped [of SVG_MOON]) (simp_all add: icon_svg_partly_cloudy_night)
  next
    case 5
    then show ?thesis by (intro cloud_only [of SVG_RAIN]) (simp_all add: icon_svg_rain no_pair)
  next
    case 6
    then show ?thesis by (intro cloud_only [of SVG_SNOW]) (simp_all add: icon_svg_snow no_pair)
  next
    case 7
    then show ?thesis by (intro cloud_only [of SVG_SNOW]) (simp_all add: icon_svg_hail no_pair)
  next
    case 8
    then show ?thesis
      by (intro cloud_only [of "SVG_RAIN @ SVG_SNOW"]) (simp_all add: icon_svg_sleet no_pair)
  next
    case 9
    then show ?thesis by (intro no_cloud [of SVG_WIND]) (simp_all add: icon_svg_wind no_A)
  next
    case 10
    then show ?thesis
      by (intro cloud_only [of "[]"]) (simp_all add: icon_svg_unknown no_pair condition_codes_def)
  qed
qed

theorem cloud_overlay_by_icon_witness:
  "getprop (sample_weather (JStr ''rain'')) ''currently'' =
     Inr (JObj [(''summary'', JStr ''Overcast''), (''icon'', JStr ''rain'')]) \<and>
   getprop (JObj [(''summary'', JStr ''Overcast''), (''icon'', JStr ''rain'')]) ''icon'' =
     Inr (JStr ''rain'') \<and>
   getIcon (sample_weather (JStr ''rain'')) = Inr (icon_svg (JStr ''rain'')) \<and>
   sublist SVG_CLOUD (icon_svg (JStr ''rain'')) \<and>
   \<not> sublist translating_group (icon_svg (JStr ''rain'')) \<and>
   getIcon (sample_weather (JStr ''partly-cloudy-night'')) =
     Inr (icon_svg (JStr ''partly-cloudy-night'')) \<and>
   sublist (translating_group @ SVG_CLOUD @ ''</g>'') (icon_svg (JStr ''partly-cloudy-night'')) \<and>
   getIcon (sample_weather (JStr ''wind'')) = Inr (icon_svg (JStr ''wind'')) \<and>
   \<not> sublist SVG_CLOUD (icon_svg (JStr ''wind''))"
  using
    cloud_overlay_by_icon
      [of "sample_weather (JStr ''rain'')"
          "JObj [(''summary'', JStr ''Overcast''), (''icon'', JStr ''rain'')]" "JStr ''rain''"]
    cloud_overlay_by_icon
      [of "sample_weather (JStr ''partly-cloudy-night'')"
          "JObj [(''summary'', JStr ''Overcast''), (''icon'', JStr ''partly-cloudy-night'')]"
          "JStr ''partly-cloudy-night''"]
    cloud_overlay_by_icon
      [of "sample_weather (JStr ''wind'')"
          "JObj [(''summary'', JStr ''Overcast''), (''icon'', JStr ''wind'')]" "JStr ''wind''"]
  by (simp add: sample_weather_def)

text \<open>
  C5. For the icon sleet the document is the declaration, then the rain fragment, then
  the snow fragment, then the cloud, the credit and the closing tag; what follows the
  snow fragment contains neither the rain nor the snow fragment again.
\<close>

theorem sleet_rain_then_snow:
  assumes "getprop weather ''currently'' = Inr currently"
    and "getprop currently ''icon'' = Inr (JStr ''sleet'')"
  shows "getIcon weather =
           Inr (SVG_BASE @ SVG_RAIN @ SVG_SNOW @ SVG_CLOUD @ SVG_CREDIT @ ''</svg>'') \<and>
         \<not> sublist SVG_RAIN (SVG_CLOUD @ SVG_CREDIT @ ''</svg>'') \<and>
         \<not> sublist SVG_SNOW (SVG_CLOUD @ SVG_CREDIT @ ''</svg>'')"
proof -
  have doc: "getIcon weather =
      Inr (SVG_BASE @ SVG_RAIN @ SVG_SNOW @ SVG_CLOUD @ SVG_CREDIT @ ''</svg>'')"
    using getIcon_icon [OF assms] by (simp add: icon_svg_sleet)
  have rest: "CHR ''('' \<notin> set (SVG_CLOUD @ SVG_CREDIT @ ''</svg>'')"
    by (simp add: no_paren)
  from doc not_sublist_by_char [OF has_paren(1) rest] not_sublist_by_char [OF has_paren(2) rest]
  show ?thesis by (intro conjI)
qed

theorem sleet_rain_then_snow_witness:
  "getprop (sample_weather (JStr ''sleet'')) ''currently'' =
     Inr (JObj [(''summary'', JStr ''Overcast''), (''icon'', JStr ''sleet'')]) \<and>
   getprop (JObj [(''summary'', JStr ''Overcast''), (''icon'', JStr ''sleet'')]) ''icon'' =
     Inr (JStr ''sleet'') \<and>
   getIcon (sample_weather (JStr ''sleet'')) =
     Inr (SVG_BASE @ SVG_RAIN @ SVG_SNOW @ SVG_CLOUD @ SVG_CREDIT @ ''</svg>'') \<and>
   \<not> sublist SVG_RAIN (SVG_CLOUD @ SVG_CREDIT @ ''</svg>'') \<and>
   \<not> sublist SVG_SNOW (SVG_CLOUD @ SVG_CREDIT @ ''</svg>'')"
  using sleet_rain_then_snow
    [of "sample_weather (JStr ''sleet'')"
        "JObj [(''summary'', JStr ''Overcast''), (''icon'', JStr ''sleet'')]"]
  by (simp add: sample_weather_def)

text \<open>
  C6. For every value of \<^verbatim>\<open>currently.icon\<close>, one of the nine codes or not, the
  document begins with the XML declaration and the \<^verbatim>\<open><svg>\<close> opening tag with the
  viewbox 0 0 200 230, ends with \<^verbatim>\<open></svg>\<close>, and the credit text occurs in it
  exactly once.
\<close>

theorem document_complete:
  assumes "getprop weather ''currently'' = Inr currently"
    and "getprop currently ''icon'' = Inr icon"
  shows \<open>getIcon weather = Inr (icon_svg icon) \<and>
         prefix (''<?xml version="1.0" encoding="UTF-8" ?>\<newline>'' @
                 ''<svg xmlns="http://www.w3.org/2000/svg" version="1.1" viewbox="0 0 200 230">'')
           (icon_svg icon) \<and>
         suffix ''</svg>'' (icon_svg icon) \<and>
         occurrences SVG_CREDIT (icon_svg icon) = 1\<close>
proof -
  let ?body = "SVG_BASE @ draw_bottom icon [] @ draw_cloud icon [] @ close_group icon []"
  have shape: "icon_svg icon = ?body @ SVG_CREDIT @ ''</svg>''"
    by (rule icon_svg_shape)
  have "CHR ''H'' \<notin> set ?body"
    by (simp add: no_H layers_no_H)
  moreover have "CHR ''H'' \<notin> set ''</svg>''"
    by simp
  ultimately have "occurrences SVG_CREDIT (icon_svg icon) = 1"
    unfolding shape using credit_H by (intro occurrences_once)
  moreover have "prefix SVG_BASE (icon_svg icon)"
    unfolding shape by simp
  moreover have "suffix ''</svg>'' (icon_svg icon)"
    unfolding shape by (simp add: suffix_def)
  ultimately show ?thesis
    using getIcon_icon [OF assms] by (simp add: SVG_BASE_def)
qed

theorem document_complete_witness:
  \<open>getprop (sample_weather (JStr ''clear-day'')) ''currently'' =
     Inr (JObj [(''summary'', JStr ''Overcast''), (''icon'', JStr ''clear-day'')]) \<and>
   getprop (JObj [(''summary'', JStr ''Overcast''), (''icon'', JStr ''clear-day'')]) ''icon'' =
     Inr (JStr ''clear-day'') \<and>
   getIcon (sample_weather (JStr ''clear-day'')) = Inr (icon_svg (JStr ''clear-day'')) \<and>
   prefix (''<?xml version="1.0" encoding="UTF-8" ?>\<newline>'' @
           ''<svg xmlns="http://www.w3.org/2000/svg" version="1.1" viewbox="0 0 200 230">'')
     (icon_svg (JStr ''clear-day'')) \<and>
   suffix ''</svg>'' (icon_svg (JStr ''clear-day'')) \<and>
   occurrences SVG_CREDIT (icon_svg (JStr ''clear-day'')) = 1\<close>
  using document_complete
    [of "sample_weather (JStr ''clear-day'')"
        "JObj [(''summary'', JStr ''Overcast''), (''icon'', JStr ''clear-day'')]"
        "JStr ''clear-day''"]
  by (simp add: sample_weather_def)

text \<open>
  C8. \<^verbatim>\<open>getIcon\<close> depends on the payload through \<^verbatim>\<open>currently.icon\<close> alone: two
  payloads whose \<^verbatim>\<open>currently.icon\<close> reads give the same result render the same.
\<close>

theorem getIcon_reads_icon_only:
  assumes "getprop w1 ''currently'' = Inr c1" and "getprop w2 ''currently'' = Inr c2"
    and "getprop c1 ''icon'' = getprop c2 ''icon''"
  shows "getIcon w1 = getIcon w2"
  using assms by (simp add: getIcon_def)

theorem getIcon_reads_icon_only_witness:
  "sample_weather (JStr ''rain'') \<noteq> sample_forecast (JStr ''rain'') \<and>
   getprop (sample_weather (JStr ''rain'')) ''currently'' =
     Inr (JObj [(''summary'', JStr ''Overcast''), (''icon'', JStr ''rain'')]) \<and>
   getprop (sample_forecast (JStr ''rain'')) ''currently'' =
     Inr (JObj [(''icon'', JStr ''rain''), (''temperature'', JNum (Finite 54))]) \<and>
   getprop (JObj [(''summary'', JStr ''Overcast''), (''icon'', JStr ''rain'')]) ''icon'' =
     getprop (JObj [(''icon'', JStr ''rain''), (''temperature'', JNum (Finite 54))]) ''icon'' \<and>
   getIcon (sample_weather (JStr ''rain'')) = getIcon (sample_forecast (JStr ''rain''))"
  using getIcon_reads_icon_only
    [of "sample_weather (JStr ''rain'')"
        "JObj [(''summary'', JStr ''Overcast''), (''icon'', JStr ''rain'')]"
        "sample_forecast (JStr ''rain'')"
        "JObj [(''icon'', JStr ''rain''), (''temperature'', JNum (Finite 54))]"]
  by (simp add: sample_weather_def sample_forecast_def)

text \<open>
  C9. A payload whose icon is hail and a payload whose icon is snow render to the same
  document: the declaration, the snow fragment, the cloud, the credit and the closing
  tag.
\<close>

theorem hail_renders_as_snow:
  assumes "getprop w1 ''currently'' = Inr c1" and "getprop c1 ''icon'' = Inr (JStr ''hail'')"
    and "getprop w2 ''currently'' = Inr c2" and "getprop c2 ''icon'' = Inr (JStr ''snow'')"
  shows "getIcon w1 = getIcon w2 \<and>
         getIcon w2 = Inr (SVG_BASE @ SVG_SNOW @ SVG_CLOUD @ SVG_CREDIT @ ''</svg>'')"
  using getIcon_icon [OF assms(1,2)] getIcon_icon [OF assms(3,4)]
  by (simp add: icon_svg_hail icon_svg_snow)

theorem hail_renders_as_snow_witness:
  "getprop (sample_forecast (JStr ''hail'')) ''currently'' =
     Inr (JObj [(''icon'', JStr ''hail''), (''temperature'', JNum (Finite 54))]) \<and>
   getprop (JObj [(''icon'', JStr ''hail''), (''temperature'', JNum (Finite 54))]) ''icon'' =
     Inr (JStr ''hail'') \<and>
   getprop (sample_forecast (JStr ''snow'')) ''currently'' =
     Inr (JObj [(''icon'', JStr ''snow''), (''temperature'', JNum (Finite 54))]) \<and>
   getprop (JObj [(''icon'', JStr ''snow''), (''temperature'', JNum (Finite 54))]) ''icon'' =
     Inr (JStr ''snow'') \<and>
   getIcon (sample_forecast (JStr ''hail'')) = getIcon (sample_forecast (JStr ''snow'')) \<and>
   getIcon (sample_forecast (JStr ''snow'')) =
     Inr (SVG_BASE @ SVG_SNOW @ SVG_CLOUD @ SVG_CREDIT @ ''</svg>'')"
  using hail_renders_as_snow
    [of "sample_forecast (JStr ''hail'')"
        "JObj [(''icon'', JStr ''hail''), (''temperature'', JNum (Finite 54))]"
        "sample_forecast (JStr ''snow'')"
        "JObj [(''icon'', JStr ''snow''), (''temperature'', JNum (Finite 54))]"]
  by (simp add: sample_forecast_def)

text \<open>
  C10, as the code has it. \<^verbatim>\<open>getIcon\<close> is partial, and it fails exactly on the
  payloads whose \<^verbatim>\<open>currently\<close> is absent: the payload is itself \<^verbatim>\<open>null\<close> or
  \<^verbatim>\<open>undefined\<close>, or its \<^verbatim>\<open>currently\<close> is missing or \<^verbatim>\<open>null\<close>. There the read
  of \<^verbatim>\<open>currently.icon\<close> throws a TypeError and no document is returned. On every
  other payload a document is returned, the one for the value read as \<^verbatim>\<open>icon\<close>: this
  includes a \<^verbatim>\<open>currently\<close> that is not an object (a string, a number, a boolean, an
  array) and an object without \<^verbatim>\<open>icon\<close>, where \<^verbatim>\<open>icon\<close> reads as
  \<^verbatim>\<open>undefined\<close> and the document is the one of the default case.
\<close>

theorem getIcon_failure_domain:
  "(getIcon weather = Inl TypeError \<longleftrightarrow>
      getprop weather ''currently'' \<in> {Inl TypeError, Inr JUndefined, Inr JNull}) \<and>
   (getprop weather ''currently'' \<notin> {Inl TypeError, Inr JUndefined, Inr JNull} \<longrightarrow>
      (\<exists>currently icon.
         getprop weather ''currently'' = Inr currently \<and>
         getprop currently ''icon'' = Inr icon \<and>
         getIcon weather = Inr (icon_svg icon))) \<and>
   (\<forall>currently.
      getprop weather ''currently'' = Inr currently \<and>
      getprop currently ''icon'' = Inr JUndefined \<longrightarrow>
      getIcon weather = Inr (SVG_BASE @ SVG_CLOUD @ SVG_CREDIT @ ''</svg>''))"
proof -
  have undefined_icon: "icon_svg JUndefined = SVG_BASE @ SVG_CLOUD @ SVG_CREDIT @ ''</svg>''"
    by (rule icon_svg_unknown) auto
  have reads: "\<exists>icon. getprop currently ''icon'' = Inr icon"
    if "currently \<noteq> JUndefined" and "currently \<noteq> JNull" for currently
    using that by (cases currently) simp_all
  have fails: "getIcon weather = Inl TypeError"
    if "getprop weather ''currently'' \<in> {Inl TypeError, Inr JUndefined, Inr JNull}"
    using that by (auto simp: getIcon_def)
  have renders: "\<exists>currently icon.
      getprop weather ''currently'' = Inr currently \<and>
      getprop currently ''icon'' = Inr icon \<and>
      getIcon weather = Inr (icon_svg icon)"
    if absent: "getprop weather ''currently'' \<notin> {Inl TypeError, Inr JUndefined, Inr JNull}"
  proof -
    from absent obtain currently where c: "getprop weather ''currently'' = Inr currently"
      by (cases weather) auto
    with absent have "currently \<noteq> JUndefined" and "currently \<noteq> JNull"
      by auto
    then obtain icon where "getprop currently ''icon'' = Inr icon"
      using reads by blast
    with c show ?thesis
      by (simp add: getIcon_def)
  qed
  have default: "getIcon weather = Inr (SVG_BASE @ SVG_CLOUD @ SVG_CREDIT @ ''</svg>'')"
    if "getprop weather ''currently'' = Inr currently"
      and "getprop currently ''icon'' = Inr JUndefined" for currently
    using that undefined_icon by (simp add: getIcon_def)
  have "getIcon weather = Inl TypeError \<longleftrightarrow>
      getprop weather ''currently'' \<in> {Inl TypeError, Inr JUndefined, Inr JNull}"
    using fails renders by (metis sum.distinct(1))
  with renders default show ?thesis
    by blast
qed

theorem getIcon_failure_domain_witness:
  "getprop sample_refusal ''currently'' = Inr JUndefined \<and>
   getIcon sample_refusal = Inl TypeError \<and>
   getprop JNull ''currently'' = Inl TypeError \<and>
   getIcon JNull = Inl TypeError \<and>
   getprop sample_flat ''currently'' = Inr (JStr ''rain'') \<and>
   getprop (JStr ''rain'') ''icon'' = Inr JUndefined \<and>
   getIcon sample_flat = Inr (SVG_BASE @ SVG_CLOUD @ SVG_CREDIT @ ''</svg>'') \<and>
   getIcon sample_flat \<noteq> Inl TypeError \<and>
   (\<exists>currently icon.
      getprop (sample_forecast (JStr ''rain'')) ''currently'' = Inr currently \<and>
      getprop currently ''icon'' = Inr icon \<and>
      getIcon (sample_forecast (JStr ''rain'')) = Inr (icon_svg icon))"
  using
    getIcon_failure_domain [of sample_refusal]
    getIcon_failure_domain [of JNull]
    getIcon_failure_domain [of sample_flat]
    getIcon_failure_domain [of "sample_forecast (JStr ''rain'')"]
  by (simp add: sample_refusal_def sample_flat_def sample_forecast_def
        icon_svg_unknown condition_codes_def)

text \<open>
  The claim C10 as it was stated fails on a payload that lacks a \<^verbatim>\<open>currently\<close> object
  because its \<^verbatim>\<open>currently\<close> is a string: the read of \<^verbatim>\<open>icon\<close> on the string gives
  \<^verbatim>\<open>undefined\<close>, nothing throws, and the document of the default case is returned.
\<close>

theorem getIcon_not_object_counterexample:
  "getprop sample_flat ''currently'' = Inr (JStr ''rain'') \<and>
   \<not> is_object (JStr ''rain'') \<and>
   getIcon sample_flat = Inr (SVG_BASE @ SVG_CLOUD @ SVG_CREDIT @ ''</svg>'')"
  by (simp add: sample_flat_def getIcon_def icon_svg_unknown condition_codes_def)

end
